theory Spec2Isabelle
  imports Main "HOL-Library.Word" "HOL-Library.Finite_Map"
begin

section \<open>Data model of the render graph\<close>

text \<open>
  The development follows \<^verbatim>\<open>include/nova_renderer/rendergraph.hpp\<close> and
  \<^verbatim>\<open>include/nova_renderer/resource_loader.hpp\<close>.

  Device objects are opaque: an \<^verbatim>\<open>rx::ptr<T>\<close> or a raw \<^verbatim>\<open>T*\<close> is an optional
  handle, \<open>None\<close> being the null pointer. \<^verbatim>\<open>glm::uvec2\<close> is a pair of 32-bit unsigned
  integers, \<^verbatim>\<open>size_t\<close> is a 64-bit unsigned integer. An \<^verbatim>\<open>rx::map\<close> is a finite map.
  Fields that \<^verbatim>\<open>Rendergraph::add_renderpass\<close> never reads or writes (pixel formats,
  barrier lists, allocators) are left out of the records.
\<close>

type_synonym RhiImage = nat
type_synonym RhiRenderpass = nat
type_synonym RhiFramebuffer = nat
type_synonym uvec2 = "32 word \<times> 32 word"

record TextureAttachmentInfo =
  att_name :: string

record RenderPassCreateInfo =
  ci_name :: string
  texture_outputs :: "TextureAttachmentInfo list"
  depth_texture :: "TextureAttachmentInfo option"
  ci_pipeline_names :: "string list"

record RenderpassMetadata =
  data :: RenderPassCreateInfo

text \<open>
  \<^verbatim>\<open>TextureResource\<close>: \<^verbatim>\<open>add_renderpass\<close> calls \<^verbatim>\<open>image.get()\<close> on the entry and moves
  from it, so the field \<^verbatim>\<open>image\<close> (here \<open>tex_image\<close>) is the owning pointer of the image.
\<close>

record TextureResource =
  tex_name :: string
  tex_image :: "RhiImage option"
  width :: "64 word"
  height :: "64 word"

record Renderpass =
  pass_id :: "32 word"
  name :: string
  is_builtin :: bool
  renderpass :: "RhiRenderpass option"
  framebuffer :: "RhiFramebuffer option"
  pipeline_names :: "string list"
  writes_to_backbuffer :: bool

record Rendergraph =
  is_dirty :: bool
  renderpasses :: "(string, Renderpass) fmap"
  cached_execution_order :: "string list"
  renderpass_metadatas :: "(string, RenderpassMetadata) fmap"

text \<open>
  A pooled staging buffer and the registry. \<^verbatim>\<open>staging_buffers\<close> maps a capacity to the
  free buffers of that capacity; \<open>num_allocations\<close> counts the buffers the device has
  been asked to allocate.
\<close>

record Buffer =
  buffer_handle :: nat
  buffer_size :: nat

record DeviceResources =
  render_targets :: "(string, TextureResource) fmap"
  staging_buffers :: "(nat, Buffer list) fmap"
  num_allocations :: nat

text \<open>
  The abstract device interface, as far as \<^verbatim>\<open>add_renderpass\<close> calls it: the size of the
  swapchain, \<^verbatim>\<open>create_renderpass\<close> and \<^verbatim>\<open>create_framebuffer\<close>. Each answers with a
  handle or with null.
\<close>

record RenderDevice =
  swapchain_size :: uvec2
  device_create_renderpass :: "RenderPassCreateInfo \<Rightarrow> uvec2 \<Rightarrow> RhiRenderpass option"
  device_create_framebuffer ::
    "RhiRenderpass \<Rightarrow> RhiImage option list \<Rightarrow> RhiImage option \<Rightarrow> uvec2 \<Rightarrow> RhiFramebuffer option"

text \<open>
  The messages written to \<^verbatim>\<open>rg_log\<close>, one constructor per format string, carrying the
  arguments of the format.
\<close>

datatype attachment_error =
  BackbufferAndOthers string nat
| SizeMismatch string uvec2 string uvec2

datatype log_entry =
  NoRenderTargetNamed string
| AttachmentError attachment_error
| AttachmentSpecificationErrors string
| CouldNotCreateRenderpass string

section \<open>The resource registry\<close>

text \<open>
  Modelled from the spec: the body of \<^verbatim>\<open>DeviceResources::get_render_target\<close> is not in
  the sources (only its declaration is). The spec: an accessor if the name is present,
  an empty result otherwise, without side effect. An accessor is the registry and the
  name, looked up at each use; the model returns the entry the accessor resolves to.
\<close>

definition get_render_target :: "DeviceResources \<Rightarrow> string \<Rightarrow> TextureResource option" where
  "get_render_target resource_storage n = fmlookup (render_targets resource_storage) n"

section \<open>Rendergraph::destroy\_renderpass\<close>

text \<open>
  Modelled from the spec: the body of \<^verbatim>\<open>Rendergraph::destroy_renderpass\<close> is not in the
  sources. The spec: it tears down the device renderpass and framebuffer, removes the
  pass and its metadata, and marks the order stale; on a name that is absent it is a no-op
  that leaves the staleness as it is.
\<close>

definition destroy_renderpass :: "string \<Rightarrow> Rendergraph \<Rightarrow> Rendergraph" where
  "destroy_renderpass n g =
     (case fmlookup (renderpasses g) n of
        None \<Rightarrow> g
      | Some p \<Rightarrow>
          g\<lparr>renderpasses := fmdrop n (renderpasses g),
            renderpass_metadatas := fmdrop n (renderpass_metadatas g),
            is_dirty := True\<rparr>)"

section \<open>Rendergraph::add\_renderpass\<close>

text \<open>
  The locals of \<^verbatim>\<open>add_renderpass\<close> that the loop over \<^verbatim>\<open>texture_outputs\<close> updates,
  with the pass object it writes to and the log lines it emits.
\<close>

record AttachmentState =
  as_renderpass :: Renderpass
  color_attachments :: "RhiImage option list"
  framebuffer_size :: uvec2
  attachment_errors :: "attachment_error list"
  missing_render_targets :: bool
  as_log :: "log_entry list"

text \<open>
  One iteration of \<^verbatim>\<open>texture_outputs.each_fwd\<close> (lines 381 to 425). \<open>BACKBUFFER_NAME\<close> is
  a constant declared outside the sources and is a parameter here.
\<close>

definition resolve_output ::
  "string \<Rightarrow> RenderDevice \<Rightarrow> DeviceResources \<Rightarrow> RenderPassCreateInfo \<Rightarrow>
   AttachmentState \<Rightarrow> TextureAttachmentInfo \<Rightarrow> AttachmentState" where
  "resolve_output BACKBUFFER_NAME device resource_storage create_info st attachment_info =
     (if att_name attachment_info = BACKBUFFER_NAME then
        (if length (texture_outputs create_info) = 1 then
           st\<lparr>as_renderpass :=
                (as_renderpass st)\<lparr>writes_to_backbuffer := True, framebuffer := None\<rparr>,
              framebuffer_size := swapchain_size device\<rparr>
         else
           st\<lparr>attachment_errors := attachment_errors st @
                [BackbufferAndOthers (ci_name create_info)
                   (length (texture_outputs create_info) - 1)],
              framebuffer_size := swapchain_size device\<rparr>)
      else
        (case get_render_target resource_storage (att_name attachment_info) of
           Some render_target \<Rightarrow>
             (let attachment_size =
                    (ucast (width render_target), ucast (height render_target)) :: uvec2;
                  st1 = st\<lparr>color_attachments :=
                              color_attachments st @ [tex_image render_target]\<rparr>
              in if 0 < fst (framebuffer_size st1) then
                   (if fst attachment_size \<noteq> fst (framebuffer_size st1)
                       \<or> snd attachment_size \<noteq> snd (framebuffer_size st1) then
                      st1\<lparr>attachment_errors := attachment_errors st1 @
                            [SizeMismatch (att_name attachment_info) attachment_size
                               (ci_name create_info) (framebuffer_size st1)]\<rparr>
                    else st1)
                 else st1\<lparr>framebuffer_size := attachment_size\<rparr>)
         | None \<Rightarrow>
             st\<lparr>as_log := as_log st @ [NoRenderTargetNamed (att_name attachment_info)],
                missing_render_targets := True\<rparr>))"

definition initial_attachment_state :: "Renderpass \<Rightarrow> AttachmentState" where
  "initial_attachment_state rp =
     \<lparr>as_renderpass = rp, color_attachments = [], framebuffer_size = (0, 0),
      attachment_errors = [], missing_render_targets = False, as_log = []\<rparr>"

definition resolve_outputs ::
  "string \<Rightarrow> RenderDevice \<Rightarrow> DeviceResources \<Rightarrow> RenderPassCreateInfo \<Rightarrow>
   AttachmentState \<Rightarrow> TextureAttachmentInfo list \<Rightarrow> AttachmentState" where
  "resolve_outputs BACKBUFFER_NAME device resource_storage create_info st outs =
     foldl (resolve_output BACKBUFFER_NAME device resource_storage create_info) st outs"

text \<open>
  The depth attachment (lines 431 to 439): when the create info names a depth texture that
  the registry has, the image is moved out of the registry's entry, which keeps a null
  image; otherwise the depth attachment is null and the registry is untouched.
\<close>

definition take_depth_attachment ::
  "DeviceResources \<Rightarrow> RenderPassCreateInfo \<Rightarrow> RhiImage option \<times> DeviceResources" where
  "take_depth_attachment resource_storage create_info =
     (case depth_texture create_info of
        None \<Rightarrow> (None, resource_storage)
      | Some d \<Rightarrow>
          (case get_render_target resource_storage (att_name d) of
             None \<Rightarrow> (None, resource_storage)
           | Some depth_tex \<Rightarrow>
               (tex_image depth_tex,
                resource_storage\<lparr>render_targets :=
                  fmupd (att_name d) (depth_tex\<lparr>tex_image := None\<rparr>)
                    (render_targets resource_storage)\<rparr>)))"

text \<open>
  The body of \<^verbatim>\<open>add_renderpass\<close> (lines 364 to 480). The two \<^verbatim>\<open>reserve\<close> calls change no
  value and are left out. The pass is entered after \<^verbatim>\<open>destroy_renderpass\<close> has removed
  its name, so \<^verbatim>\<open>rx::map::insert\<close> is the map update.
\<close>

text \<open>
  What a call of \<^verbatim>\<open>add_renderpass\<close> leaves behind: the pointer it returns (\<open>None\<close> is
  \<^verbatim>\<open>nullptr\<close>), the graph, the registry, the pass object it was given, and the log.
\<close>

record AddResult =
  returned :: "Renderpass option"
  graph :: Rendergraph
  resources :: DeviceResources
  pass_object :: Renderpass
  logged :: "log_entry list"

definition add_renderpass ::
  "string \<Rightarrow> RenderDevice \<Rightarrow> Rendergraph \<Rightarrow> Renderpass \<Rightarrow> RenderPassCreateInfo \<Rightarrow>
   DeviceResources \<Rightarrow> AddResult" where
  "add_renderpass BACKBUFFER_NAME device g rp create_info resource_storage =
     (let metadata = \<lparr>data = create_info\<rparr>;
          st = resolve_outputs BACKBUFFER_NAME device resource_storage create_info
                 (initial_attachment_state rp) (texture_outputs create_info)
      in if missing_render_targets st then
           \<lparr>returned = None, graph = g, resources = resource_storage,
            pass_object = as_renderpass st, logged = as_log st\<rparr>
         else
           (let (depth_attachment, resource_storage') =
                  take_depth_attachment resource_storage create_info
            in if attachment_errors st \<noteq> [] then
                 \<lparr>returned = None, graph = g, resources = resource_storage',
                  pass_object = as_renderpass st,
                  logged = as_log st @ map AttachmentError (attachment_errors st) @
                    [AttachmentSpecificationErrors (ci_name create_info)]\<rparr>
               else
                 (case device_create_renderpass device create_info (framebuffer_size st) of
                    None \<Rightarrow>
                      \<lparr>returned = None, graph = g, resources = resource_storage',
                       pass_object = as_renderpass st,
                       logged = as_log st @ [CouldNotCreateRenderpass (ci_name create_info)]\<rparr>
                  | Some renderpass_result \<Rightarrow>
                      (let rp1 = (as_renderpass st)\<lparr>renderpass := Some renderpass_result\<rparr>;
                           rp2 = (if \<not> writes_to_backbuffer rp1 then
                                    rp1\<lparr>framebuffer :=
                                      device_create_framebuffer device renderpass_result
                                        (color_attachments st) depth_attachment
                                        (framebuffer_size st)\<rparr>
                                  else rp1);
                           rp3 = rp2\<lparr>pipeline_names := ci_pipeline_names create_info,
                                     pass_id := of_nat (fcard (fmdom (renderpass_metadatas g)))\<rparr>;
                           g1 = destroy_renderpass (ci_name create_info) g;
                           g2 = g1\<lparr>renderpasses :=
                                     fmupd (ci_name create_info) rp3 (renderpasses g1),
                                   renderpass_metadatas :=
                                     fmupd (ci_name create_info) metadata (renderpass_metadatas g1),
                                   is_dirty := True\<rparr>
                       in \<lparr>returned = Some rp3, graph = g2, resources = resource_storage',
                           pass_object = rp3, logged = as_log st\<rparr>))))"

section \<open>Rendergraph::calculate\_renderpass\_execution\_order\<close>

text \<open>
  Modelled from the spec: the body of \<^verbatim>\<open>calculate_renderpass_execution_order\<close> is not in
  the sources. The spec: if the cache is fresh, return it; otherwise recompute an order
  over the registered passes, cache the result, clear the staleness flag, and return it.
  The spec leaves the ordering rule open, so the recomputation \<open>order_passes\<close> is a
  parameter: any function of the registered metadata.
\<close>

definition calculate_renderpass_execution_order ::
  "((string, RenderpassMetadata) fmap \<Rightarrow> string list) \<Rightarrow> Rendergraph \<Rightarrow>
   string list \<times> Rendergraph" where
  "calculate_renderpass_execution_order order_passes g =
     (if is_dirty g then
        (let g' = g\<lparr>cached_execution_order := order_passes (renderpass_metadatas g),
                    is_dirty := False\<rparr>
         in (cached_execution_order g', g'))
      else (cached_execution_order g, g))"

section \<open>The staging buffer pool\<close>

text \<open>
  Modelled from the spec: the body of \<^verbatim>\<open>DeviceResources::get_staging_buffer_with_size\<close>
  is not in the sources. The spec: it returns a pool entry with capacity at least the
  requested size, preferring an existing free entry in the smallest bucket that satisfies
  the request, and allocates a new entry only if none fits; releasing an entry returns it
  to its bucket's free list untouched.
\<close>

definition fitting_buckets :: "nat \<Rightarrow> (nat, Buffer list) fmap \<Rightarrow> nat fset" where
  "fitting_buckets sz pool =
     ffilter (\<lambda>k. sz \<le> k \<and> (case fmlookup pool k of Some (b # bs) \<Rightarrow> True | _ \<Rightarrow> False))
       (fmdom pool)"

definition allocate_staging_buffer :: "nat \<Rightarrow> DeviceResources \<Rightarrow> Buffer \<times> DeviceResources" where
  "allocate_staging_buffer sz res =
     (\<lparr>buffer_handle = num_allocations res, buffer_size = sz\<rparr>,
      res\<lparr>num_allocations := Suc (num_allocations res)\<rparr>)"

definition get_staging_buffer_with_size :: "nat \<Rightarrow> DeviceResources \<Rightarrow> Buffer \<times> DeviceResources" where
  "get_staging_buffer_with_size sz res =
     (if fitting_buckets sz (staging_buffers res) = {||} then allocate_staging_buffer sz res
      else
        (let k = fMin (fitting_buckets sz (staging_buffers res))
         in case fmlookup (staging_buffers res) k of
              Some (b # bs) \<Rightarrow> (b, res\<lparr>staging_buffers := fmupd k bs (staging_buffers res)\<rparr>)
            | _ \<Rightarrow> allocate_staging_buffer sz res))"

definition release_staging_buffer :: "Buffer \<Rightarrow> DeviceResources \<Rightarrow> DeviceResources" where
  "release_staging_buffer b res =
     res\<lparr>staging_buffers :=
       fmupd (buffer_size b)
         (b # (case fmlookup (staging_buffers res) (buffer_size b) of
                 None \<Rightarrow> [] | Some bs \<Rightarrow> bs))
         (staging_buffers res)\<rparr>"

text \<open>Every free buffer sits in the bucket of its own capacity.\<close>

definition pool_ok :: "DeviceResources \<Rightarrow> bool" where
  "pool_ok res =
     (\<forall>k bs. fmlookup (staging_buffers res) k = Some bs \<longrightarrow> (\<forall>b \<in> set bs. buffer_size b = k))"

section \<open>Notions used to state the properties\<close>

text \<open>
  The declared outputs that the registry resolves, in declaration order, each with the
  entry it resolves to; their sizes as \<^verbatim>\<open>add_renderpass\<close> reads them (two 32-bit values);
  and the names that do not resolve.
\<close>

definition resolved_outputs ::
  "DeviceResources \<Rightarrow> TextureAttachmentInfo list \<Rightarrow> (string \<times> TextureResource) list" where
  "resolved_outputs resource_storage outs =
     concat (map (\<lambda>a. case get_render_target resource_storage (att_name a) of
                         None \<Rightarrow> [] | Some rt \<Rightarrow> [(att_name a, rt)]) outs)"

definition attachment_size :: "TextureResource \<Rightarrow> uvec2" where
  "attachment_size rt = (ucast (width rt), ucast (height rt))"

definition missing_outputs ::
  "string \<Rightarrow> DeviceResources \<Rightarrow> TextureAttachmentInfo list \<Rightarrow> string list" where
  "missing_outputs BACKBUFFER_NAME resource_storage outs =
     map att_name
       (filter (\<lambda>a. att_name a \<noteq> BACKBUFFER_NAME
                  \<and> get_render_target resource_storage (att_name a) = None) outs)"

text \<open>
  The size mismatches among resolved attachments, stated independently of the loop: the
  first attachment of non-zero width sets the expected size, and every later attachment
  whose size differs from it is a mismatch.
\<close>

definition expected_mismatches ::
  "string \<Rightarrow> (string \<times> TextureResource) list \<Rightarrow> attachment_error list" where
  "expected_mismatches pass_name resolved =
     (case dropWhile (\<lambda>(n, rt). fst (attachment_size rt) = 0) resolved of
        [] \<Rightarrow> []
      | (n0, rt0) # rest \<Rightarrow>
          map (\<lambda>(n, rt). SizeMismatch n (attachment_size rt) pass_name (attachment_size rt0))
            (filter (\<lambda>(n, rt). attachment_size rt \<noteq> attachment_size rt0) rest))"

text \<open>
  The ids in use are below the number of registered passes, and the pass map and the
  metadata map have the same names. This holds of the empty graph and is kept by every
  \<^verbatim>\<open>add_renderpass\<close> of a name that is not registered yet.
\<close>

definition ids_below_count :: "Rendergraph \<Rightarrow> bool" where
  "ids_below_count g =
     (fmdom (renderpasses g) = fmdom (renderpass_metadatas g) \<and>
      (\<forall>n p. fmlookup (renderpasses g) n = Some p \<longrightarrow>
         unat (pass_id p) < fcard (fmdom (renderpass_metadatas g))))"

text \<open>Concrete inputs on which the properties below are evaluated.\<close>

definition example_device :: RenderDevice where
  "example_device =
     \<lparr>swapchain_size = (800, 600),
      device_create_renderpass = (\<lambda>ci sz. Some 1),
      device_create_framebuffer = (\<lambda>rp cols d sz. Some 2)\<rparr>"

definition empty_graph :: Rendergraph where
  "empty_graph =
     \<lparr>is_dirty = False, renderpasses = fmempty, cached_execution_order = [],
      renderpass_metadatas = fmempty\<rparr>"

definition new_pass :: "string \<Rightarrow> Renderpass" where
  "new_pass n =
     \<lparr>pass_id = 0, name = n, is_builtin = False, renderpass = None, framebuffer = None,
      pipeline_names = [], writes_to_backbuffer = False\<rparr>"

definition render_target :: "string \<Rightarrow> RhiImage \<Rightarrow> 64 word \<Rightarrow> 64 word \<Rightarrow> TextureResource" where
  "render_target n img w h = \<lparr>tex_name = n, tex_image = Some img, width = w, height = h\<rparr>"

definition example_resources :: DeviceResources where
  "example_resources =
     \<lparr>render_targets =
        fmupd ''albedo'' (render_target ''albedo'' 10 1920 1080)
          (fmupd ''normals'' (render_target ''normals'' 11 800 600)
            (fmupd ''depth'' (render_target ''depth'' 12 1920 1080)
              (fmupd ''small_depth'' (render_target ''small_depth'' 13 800 600)
                (fmupd ''empty'' (render_target ''empty'' 14 0 4) fmempty)))),
      staging_buffers = fmempty, num_allocations = 0\<rparr>"

definition pass_info ::
  "string \<Rightarrow> string list \<Rightarrow> string option \<Rightarrow> RenderPassCreateInfo" where
  "pass_info n outs depth =
     \<lparr>ci_name = n, texture_outputs = map (\<lambda>x. \<lparr>att_name = x\<rparr>) outs,
      depth_texture = map_option (\<lambda>x. \<lparr>att_name = x\<rparr>) depth, ci_pipeline_names = []\<rparr>"

text \<open>Two devices that fail: one returns a null renderpass, the other a null framebuffer.\<close>

definition null_renderpass_device :: RenderDevice where
  "null_renderpass_device = example_device\<lparr>device_create_renderpass := (\<lambda>ci sz. None)\<rparr>"

definition null_framebuffer_device :: RenderDevice where
  "null_framebuffer_device =
     example_device\<lparr>device_create_framebuffer := (\<lambda>rp cols d sz. None)\<rparr>"

text \<open>
  Registering a pass named \<open>n\<close> that writes to \<open>albedo\<close>, on the example device and
  registry.
\<close>

definition add_example_pass :: "string \<Rightarrow> Rendergraph \<Rightarrow> AddResult" where
  "add_example_pass n g =
     add_renderpass ''backbuffer'' example_device g (new_pass n)
       (pass_info n [''albedo''] None) example_resources"

text \<open>
  A pool with several buckets, one of them empty, after four allocations.
\<close>

definition staging_buffer :: "nat \<Rightarrow> nat \<Rightarrow> Buffer" where
  "staging_buffer h sz = \<lparr>buffer_handle = h, buffer_size = sz\<rparr>"

definition example_pool :: DeviceResources where
  "example_pool =
     \<lparr>render_targets = fmempty,
      staging_buffers =
        fmupd 4 [staging_buffer 0 4]
          (fmupd 16 [staging_buffer 1 16]
            (fmupd 6 []
              (fmupd 8 [staging_buffer 2 8, staging_buffer 3 8] fmempty))),
      num_allocations = 4\<rparr>"

section \<open>Properties of the attachment loop\<close>

lemma resolve_outputs_Nil:
  "resolve_outputs B device rs ci st [] = st"
  by (simp add: resolve_outputs_def)

lemma resolve_outputs_Cons:
  "resolve_outputs B device rs ci st (a # outs) =
     resolve_outputs B device rs ci (resolve_output B device rs ci st a) outs"
  by (simp add: resolve_outputs_def)

lemma resolve_outputs_append:
  "resolve_outputs B device rs ci st (xs @ ys) =
     resolve_outputs B device rs ci (resolve_outputs B device rs ci st xs) ys"
  by (simp add: resolve_outputs_def)

subsection \<open>Missing render targets: the log and the flag\<close>

lemma resolve_output_log:
  "as_log (resolve_output B device rs ci st a) =
     as_log st @ map NoRenderTargetNamed (missing_outputs B rs [a])"
  by (simp add: resolve_output_def missing_outputs_def Let_def split: option.splits)

lemma resolve_output_missing:
  "missing_render_targets (resolve_output B device rs ci st a) =
     (missing_render_targets st \<or> missing_outputs B rs [a] \<noteq> [])"
  by (simp add: resolve_output_def missing_outputs_def Let_def split: option.splits)

lemma missing_outputs_Cons:
  "missing_outputs B rs (a # outs) = missing_outputs B rs [a] @ missing_outputs B rs outs"
  by (simp add: missing_outputs_def)

lemma resolve_outputs_log:
  "as_log (resolve_outputs B device rs ci st outs) =
     as_log st @ map NoRenderTargetNamed (missing_outputs B rs outs)"
proof (induction outs arbitrary: st)
  case Nil
  show ?case by (simp add: resolve_outputs_Nil missing_outputs_def)
next
  case (Cons a outs)
  show ?case
    by (simp add: resolve_outputs_Cons Cons.IH resolve_output_log
        missing_outputs_Cons [of B rs a outs])
qed

lemma resolve_outputs_missing:
  "missing_render_targets (resolve_outputs B device rs ci st outs) =
     (missing_render_targets st \<or> missing_outputs B rs outs \<noteq> [])"
proof (induction outs arbitrary: st)
  case Nil
  show ?case by (simp add: resolve_outputs_Nil missing_outputs_def)
next
  case (Cons a outs)
  show ?case
    by (simp add: resolve_outputs_Cons Cons.IH resolve_output_missing
        missing_outputs_Cons [of B rs a outs])
qed

subsection \<open>Recorded attachment errors are never dropped\<close>

lemma resolve_output_errors_grow:
  "attachment_errors st \<noteq> [] \<Longrightarrow>
   attachment_errors (resolve_output B device rs ci st a) \<noteq> []"
  by (simp add: resolve_output_def Let_def split: option.splits)

lemma resolve_outputs_errors_grow:
  "attachment_errors st \<noteq> [] \<Longrightarrow>
   attachment_errors (resolve_outputs B device rs ci st outs) \<noteq> []"
proof (induction outs arbitrary: st)
  case Nil
  then show ?case by (simp add: resolve_outputs_Nil)
next
  case (Cons a outs)
  then show ?case
    by (simp add: resolve_outputs_Cons resolve_output_errors_grow)
qed

lemma resolve_output_backbuffer_conflict:
  "att_name a = B \<Longrightarrow> length (texture_outputs ci) \<noteq> 1 \<Longrightarrow>
   attachment_errors (resolve_output B device rs ci st a) \<noteq> []"
  by (simp add: resolve_output_def)

lemma resolve_outputs_backbuffer_conflict:
  assumes "a \<in> set outs" and "att_name a = B" and "length (texture_outputs ci) \<noteq> 1"
  shows "attachment_errors (resolve_outputs B device rs ci st outs) \<noteq> []"
proof -
  from assms(1) obtain xs ys where "outs = xs @ a # ys"
    by (auto simp: in_set_conv_decomp)
  then show ?thesis
    using assms(2,3)
    by (simp add: resolve_outputs_append resolve_outputs_Cons
        resolve_outputs_errors_grow resolve_output_backbuffer_conflict)
qed

subsection \<open>Outputs other than the backbuffer\<close>

lemma resolved_outputs_Nil: "resolved_outputs rs [] = []"
  by (simp add: resolved_outputs_def)

lemma resolved_outputs_Cons:
  "resolved_outputs rs (a # outs) =
     (case get_render_target rs (att_name a) of
        None \<Rightarrow> resolved_outputs rs outs
      | Some rt \<Rightarrow> (att_name a, rt) # resolved_outputs rs outs)"
  by (simp add: resolved_outputs_def split: option.splits)

lemma resolve_output_unresolved:
  "att_name a \<noteq> B \<Longrightarrow> get_render_target rs (att_name a) = None \<Longrightarrow>
   resolve_output B device rs ci st a =
     st\<lparr>as_log := as_log st @ [NoRenderTargetNamed (att_name a)],
        missing_render_targets := True\<rparr>"
  by (simp add: resolve_output_def)

lemma resolve_output_first_size:
  "att_name a \<noteq> B \<Longrightarrow> get_render_target rs (att_name a) = Some rt \<Longrightarrow>
   fst (framebuffer_size st) = 0 \<Longrightarrow>
   resolve_output B device rs ci st a =
     st\<lparr>color_attachments := color_attachments st @ [tex_image rt],
        framebuffer_size := attachment_size rt\<rparr>"
  by (simp add: resolve_output_def attachment_size_def Let_def)

lemma resolve_output_same_size:
  "att_name a \<noteq> B \<Longrightarrow> get_render_target rs (att_name a) = Some rt \<Longrightarrow>
   0 < fst (framebuffer_size st) \<Longrightarrow> attachment_size rt = framebuffer_size st \<Longrightarrow>
   resolve_output B device rs ci st a =
     st\<lparr>color_attachments := color_attachments st @ [tex_image rt]\<rparr>"
  by (auto simp add: resolve_output_def attachment_size_def Let_def)

lemma resolve_output_mismatch:
  "att_name a \<noteq> B \<Longrightarrow> get_render_target rs (att_name a) = Some rt \<Longrightarrow>
   0 < fst (framebuffer_size st) \<Longrightarrow> attachment_size rt \<noteq> framebuffer_size st \<Longrightarrow>
   resolve_output B device rs ci st a =
     st\<lparr>color_attachments := color_attachments st @ [tex_image rt],
        attachment_errors := attachment_errors st @
          [SizeMismatch (att_name a) (attachment_size rt) (ci_name ci) (framebuffer_size st)]\<rparr>"
  by (auto simp add: resolve_output_def attachment_size_def Let_def prod_eq_iff)

lemma resolve_output_cases:
  assumes "att_name a \<noteq> B"
  obtains (unresolved) "get_render_target rs (att_name a) = None"
  | (first) rt where "get_render_target rs (att_name a) = Some rt" "fst (framebuffer_size st) = 0"
  | (same) rt where "get_render_target rs (att_name a) = Some rt" "0 < fst (framebuffer_size st)"
      "attachment_size rt = framebuffer_size st"
  | (mismatch) rt where "get_render_target rs (att_name a) = Some rt" "0 < fst (framebuffer_size st)"
      "attachment_size rt \<noteq> framebuffer_size st"
  by (cases "get_render_target rs (att_name a)"; cases "fst (framebuffer_size st) = 0")
     (auto simp: word_gt_0)

lemma resolve_outputs_pass_kept:
  "\<forall>a \<in> set outs. att_name a \<noteq> B \<Longrightarrow>
   as_renderpass (resolve_outputs B device rs ci st outs) = as_renderpass st"
proof (induction outs arbitrary: st)
  case Nil
  show ?case by (simp add: resolve_outputs_Nil)
next
  case (Cons a outs)
  then have a: "att_name a \<noteq> B" and rest: "\<forall>x \<in> set outs. att_name x \<noteq> B" by simp_all
  have "as_renderpass (resolve_output B device rs ci st a) = as_renderpass st"
    using a by (cases rule: resolve_output_cases [where a=a and B=B and rs=rs and st=st])
      (simp_all add: a resolve_output_unresolved resolve_output_first_size
        resolve_output_same_size resolve_output_mismatch)
  then show ?case by (simp add: resolve_outputs_Cons Cons.IH [OF rest])
qed

lemma resolve_outputs_colors:
  "\<forall>a \<in> set outs. att_name a \<noteq> B \<Longrightarrow>
   color_attachments (resolve_outputs B device rs ci st outs) =
     color_attachments st @ map (\<lambda>(n, rt). tex_image rt) (resolved_outputs rs outs)"
proof (induction outs arbitrary: st)
  case Nil
  show ?case by (simp add: resolve_outputs_Nil resolved_outputs_Nil)
next
  case (Cons a outs)
  then have a: "att_name a \<noteq> B" and rest: "\<forall>x \<in> set outs. att_name x \<noteq> B" by simp_all
  show ?case
    using a by (cases rule: resolve_output_cases [where a=a and B=B and rs=rs and st=st])
      (simp_all add: a resolve_outputs_Cons Cons.IH [OF rest] resolved_outputs_Cons
        resolve_output_unresolved resolve_output_first_size
        resolve_output_same_size resolve_output_mismatch)
qed

lemma resolve_outputs_size_fixed:
  "\<forall>a \<in> set outs. att_name a \<noteq> B \<Longrightarrow> 0 < fst (framebuffer_size st) \<Longrightarrow>
   framebuffer_size (resolve_outputs B device rs ci st outs) = framebuffer_size st \<and>
   attachment_errors (resolve_outputs B device rs ci st outs) =
     attachment_errors st @
     map (\<lambda>(n, rt). SizeMismatch n (attachment_size rt) (ci_name ci) (framebuffer_size st))
       (filter (\<lambda>(n, rt). attachment_size rt \<noteq> framebuffer_size st) (resolved_outputs rs outs))"
proof (induction outs arbitrary: st)
  case Nil
  show ?case by (simp add: resolve_outputs_Nil resolved_outputs_Nil)
next
  case (Cons a outs)
  then have a: "att_name a \<noteq> B" and rest: "\<forall>x \<in> set outs. att_name x \<noteq> B"
    and pos: "0 < fst (framebuffer_size st)" by simp_all
  show ?case
    using a
  proof (cases rule: resolve_output_cases [where a=a and B=B and rs=rs and st=st])
    case unresolved
    then show ?thesis
      using Cons.IH [OF rest, of "resolve_output B device rs ci st a"] a pos
      by (simp add: resolve_outputs_Cons resolved_outputs_Cons resolve_output_unresolved)
  next
    case (first rt)
    then show ?thesis using pos by simp
  next
    case (same rt)
    then show ?thesis
      using Cons.IH [OF rest, of "resolve_output B device rs ci st a"] a pos
      by (simp add: resolve_outputs_Cons resolved_outputs_Cons resolve_output_same_size)
  next
    case (mismatch rt)
    then show ?thesis
      using Cons.IH [OF rest, of "resolve_output B device rs ci st a"] a pos
      by (simp add: resolve_outputs_Cons resolved_outputs_Cons resolve_output_mismatch)
  qed
qed

lemma resolve_outputs_errors_unsized:
  "\<forall>a \<in> set outs. att_name a \<noteq> B \<Longrightarrow> fst (framebuffer_size st) = 0 \<Longrightarrow>
   attachment_errors (resolve_outputs B device rs ci st outs) =
     attachment_errors st @ expected_mismatches (ci_name ci) (resolved_outputs rs outs)"
proof (induction outs arbitrary: st)
  case Nil
  show ?case by (simp add: resolve_outputs_Nil resolved_outputs_Nil expected_mismatches_def)
next
  case (Cons a outs)
  then have a: "att_name a \<noteq> B" and rest: "\<forall>x \<in> set outs. att_name x \<noteq> B"
    and zero: "fst (framebuffer_size st) = 0" by simp_all
  show ?case
  proof (cases "get_render_target rs (att_name a)")
    case None
    then show ?thesis
      using Cons.IH [OF rest, of "resolve_output B device rs ci st a"] a zero
      by (simp add: resolve_outputs_Cons resolved_outputs_Cons resolve_output_unresolved)
  next
    case (Some rt)
    note step = resolve_output_first_size [OF a Some zero, of device ci]
    show ?thesis
    proof (cases "fst (attachment_size rt) = 0")
      case True
      then show ?thesis
        using Cons.IH [OF rest, of "resolve_output B device rs ci st a"] Some
        by (simp add: resolve_outputs_Cons resolved_outputs_Cons step expected_mismatches_def)
    next
      case False
      then have "0 < fst (framebuffer_size (resolve_output B device rs ci st a))"
        by (simp add: step word_gt_0)
      from resolve_outputs_size_fixed [OF rest this, of device rs ci]
      show ?thesis using False Some
        by (simp add: resolve_outputs_Cons resolved_outputs_Cons step expected_mismatches_def)
    qed
  qed
qed

lemma resolve_outputs_common_size:
  "\<forall>a \<in> set outs. att_name a \<noteq> B
       \<and> (\<exists>rt. get_render_target rs (att_name a) = Some rt \<and> attachment_size rt = sz) \<Longrightarrow>
   framebuffer_size st = sz \<or> fst (framebuffer_size st) = 0 \<Longrightarrow>
   attachment_errors (resolve_outputs B device rs ci st outs) = attachment_errors st \<and>
   (outs \<noteq> [] \<longrightarrow> framebuffer_size (resolve_outputs B device rs ci st outs) = sz)"
proof (induction outs arbitrary: st)
  case Nil
  show ?case by (simp add: resolve_outputs_Nil)
next
  case (Cons a outs)
  then have a: "att_name a \<noteq> B"
    and rest: "\<forall>x \<in> set outs. att_name x \<noteq> B
       \<and> (\<exists>rt. get_render_target rs (att_name x) = Some rt \<and> attachment_size rt = sz)"
    by simp_all
  from Cons.prems(1) obtain rt where rt: "get_render_target rs (att_name a) = Some rt"
    and sz: "attachment_size rt = sz" by auto
  define st' where "st' = resolve_output B device rs ci st a"
  have st': "framebuffer_size st' = sz \<and> attachment_errors st' = attachment_errors st"
  proof (cases "fst (framebuffer_size st) = 0")
    case True
    then show ?thesis by (simp add: st'_def resolve_output_first_size [OF a rt] sz)
  next
    case False
    then have pos: "0 < fst (framebuffer_size st)" by (simp add: word_gt_0)
    with Cons.prems(2) have "attachment_size rt = framebuffer_size st" using sz False by auto
    then show ?thesis using sz by (simp add: st'_def resolve_output_same_size [OF a rt pos])
  qed
  from Cons.IH [OF rest, of st'] st'
  have "attachment_errors (resolve_outputs B device rs ci st' outs) = attachment_errors st"
    and "outs \<noteq> [] \<longrightarrow> framebuffer_size (resolve_outputs B device rs ci st' outs) = sz"
    by simp_all
  then show ?case using st'
    by (cases outs) (simp_all add: resolve_outputs_Cons resolve_outputs_Nil flip: st'_def)
qed

section \<open>The exits of add\_renderpass\<close>

lemma add_renderpass_missing:
  assumes "missing_render_targets
     (resolve_outputs B device rs ci (initial_attachment_state rp) (texture_outputs ci))"
  shows "add_renderpass B device g rp ci rs =
     \<lparr>returned = None, graph = g, resources = rs,
      pass_object = as_renderpass
        (resolve_outputs B device rs ci (initial_attachment_state rp) (texture_outputs ci)),
      logged = as_log
        (resolve_outputs B device rs ci (initial_attachment_state rp) (texture_outputs ci))\<rparr>"
  using assms by (simp add: add_renderpass_def Let_def)

lemma add_renderpass_errors:
  assumes "\<not> missing_render_targets st" and "attachment_errors st \<noteq> []"
    and "st = resolve_outputs B device rs ci (initial_attachment_state rp) (texture_outputs ci)"
  shows "add_renderpass B device g rp ci rs =
     \<lparr>returned = None, graph = g, resources = snd (take_depth_attachment rs ci),
      pass_object = as_renderpass st,
      logged = as_log st @ map AttachmentError (attachment_errors st) @
                 [AttachmentSpecificationErrors (ci_name ci)]\<rparr>"
  using assms by (simp add: add_renderpass_def Let_def split: prod.splits)

lemmas example_defs = example_device_def empty_graph_def new_pass_def render_target_def
  example_resources_def pass_info_def null_renderpass_device_def null_framebuffer_device_def

lemmas run_defs = add_renderpass_def resolve_outputs_def resolve_output_def
  initial_attachment_state_def take_depth_attachment_def get_render_target_def
  destroy_renderpass_def Let_def

lemma add_renderpass_device_failure:
  assumes "st = resolve_outputs B device rs ci (initial_attachment_state rp) (texture_outputs ci)"
    and "\<not> missing_render_targets st" and "attachment_errors st = []"
    and "device_create_renderpass device ci (framebuffer_size st) = None"
  shows "add_renderpass B device g rp ci rs =
     \<lparr>returned = None, graph = g, resources = snd (take_depth_attachment rs ci),
      pass_object = as_renderpass st,
      logged = as_log st @ [CouldNotCreateRenderpass (ci_name ci)]\<rparr>"
  using assms by (simp add: add_renderpass_def Let_def split: prod.splits)

lemma add_renderpass_created:
  assumes "st = resolve_outputs B device rs ci (initial_attachment_state rp) (texture_outputs ci)"
    and "\<not> missing_render_targets st" and "attachment_errors st = []"
    and "device_create_renderpass device ci (framebuffer_size st) = Some r"
    and "p = (as_renderpass st)
           \<lparr>renderpass := Some r,
            framebuffer :=
              (if writes_to_backbuffer (as_renderpass st) then framebuffer (as_renderpass st)
               else device_create_framebuffer device r (color_attachments st)
                      (fst (take_depth_attachment rs ci)) (framebuffer_size st)),
            pipeline_names := ci_pipeline_names ci,
            pass_id := of_nat (fcard (fmdom (renderpass_metadatas g)))\<rparr>"
  shows "add_renderpass B device g rp ci rs =
     \<lparr>returned = Some p,
      graph = (destroy_renderpass (ci_name ci) g)
        \<lparr>renderpasses := fmupd (ci_name ci) p (renderpasses (destroy_renderpass (ci_name ci) g)),
         renderpass_metadatas := fmupd (ci_name ci) \<lparr>data = ci\<rparr>
           (renderpass_metadatas (destroy_renderpass (ci_name ci) g)),
         is_dirty := True\<rparr>,
      resources = snd (take_depth_attachment rs ci),
      pass_object = p,
      logged = as_log st\<rparr>"
proof (cases "writes_to_backbuffer (as_renderpass st)")
  case True
  with assms show ?thesis
    by (simp add: add_renderpass_def Let_def split: prod.splits)
next
  case False
  with assms show ?thesis
    by (simp add: add_renderpass_def Let_def split: prod.splits)
qed


section \<open>Backbuffer together with other outputs\<close>

text \<open>
  Claim C1. Whenever the create info of a call to \<^verbatim>\<open>add_renderpass\<close> declares the
  backbuffer name among its outputs and declares at least two outputs, the call returns
  null, and the graph (pass map, metadata map, cached order and staleness flag) is exactly
  the graph before the call.
\<close>

theorem backbuffer_with_other_outputs_fails:
  assumes "a \<in> set (texture_outputs ci)" and "att_name a = B"
    and "2 \<le> length (texture_outputs ci)"
  shows "returned (add_renderpass B device g rp ci rs) = None
       \<and> graph (add_renderpass B device g rp ci rs) = g"
proof -
  define st where
    "st = resolve_outputs B device rs ci (initial_attachment_state rp) (texture_outputs ci)"
  have errs: "attachment_errors st \<noteq> []"
    unfolding st_def using assms
    by (intro resolve_outputs_backbuffer_conflict [of a]) simp_all
  show ?thesis
  proof (cases "missing_render_targets st")
    case True
    then show ?thesis by (simp add: add_renderpass_missing st_def)
  next
    case False
    then show ?thesis using add_renderpass_errors [OF False errs st_def] by simp
  qed
qed

theorem backbuffer_with_other_outputs_fails_witness:
  "returned (add_renderpass ''backbuffer'' example_device empty_graph (new_pass ''ui'')
      (pass_info ''ui'' [''albedo'', ''backbuffer''] None) example_resources) = None
   \<and> graph (add_renderpass ''backbuffer'' example_device empty_graph (new_pass ''ui'')
      (pass_info ''ui'' [''albedo'', ''backbuffer''] None) example_resources) = empty_graph"
  using backbuffer_with_other_outputs_fails
    [of "\<lparr>att_name = ''backbuffer''\<rparr>" "pass_info ''ui'' [''albedo'', ''backbuffer''] None"
        "''backbuffer''" example_device empty_graph "new_pass ''ui''" example_resources]
  by (simp add: pass_info_def)

section \<open>Attachments of one common size\<close>

text \<open>
  Claim C4, as amended. For every pass that declares at least one colour output, none of
  them the backbuffer, whose declared attachments (the outputs, and the depth texture if
  one is declared) all resolve to registry entries of one width \<open>w\<close> and height \<open>h\<close>,
  whose pass object does not already write to the backbuffer, and for which the device
  returns a renderpass and a framebuffer for that size: \<^verbatim>\<open>add_renderpass\<close> returns the
  pass, registered under its name, nothing is logged, and the framebuffer of the pass is
  the one the device created for the size \<open>(w, h)\<close> read as two 32-bit values.
\<close>

theorem consistent_attachments_succeed:
  assumes outs: "texture_outputs ci \<noteq> []"
    and res: "\<forall>a \<in> set (texture_outputs ci). att_name a \<noteq> B
       \<and> (\<exists>rt. get_render_target rs (att_name a) = Some rt \<and> width rt = w \<and> height rt = h)"
    and depth: "\<forall>d. depth_texture ci = Some d \<longrightarrow>
       (\<exists>rt. get_render_target rs (att_name d) = Some rt \<and> width rt = w \<and> height rt = h)"
    and fresh: "\<not> writes_to_backbuffer rp"
    and rp: "device_create_renderpass device ci (ucast w, ucast h) = Some r"
    and fb: "device_create_framebuffer device r
        (map (\<lambda>(n, rt). tex_image rt) (resolved_outputs rs (texture_outputs ci)))
        (fst (take_depth_attachment rs ci)) (ucast w, ucast h) = Some f"
  shows "\<exists>p. returned (add_renderpass B device g rp ci rs) = Some p
       \<and> renderpass p = Some r \<and> framebuffer p = Some f
       \<and> fmlookup (renderpasses (graph (add_renderpass B device g rp ci rs))) (ci_name ci) = Some p
       \<and> logged (add_renderpass B device g rp ci rs) = []"
proof -
  define st where
    "st = resolve_outputs B device rs ci (initial_attachment_state rp) (texture_outputs ci)"
  have nobb: "\<forall>a \<in> set (texture_outputs ci). att_name a \<noteq> B"
    using res by blast
  have common: "\<forall>a \<in> set (texture_outputs ci). att_name a \<noteq> B
       \<and> (\<exists>rt. get_render_target rs (att_name a) = Some rt
             \<and> attachment_size rt = (ucast w, ucast h))"
    using res by (fastforce simp: attachment_size_def)
  have none_missing: "missing_outputs B rs (texture_outputs ci) = []"
    using res by (auto simp: missing_outputs_def filter_empty_conv)
  have missing: "\<not> missing_render_targets st"
    by (simp add: st_def resolve_outputs_missing none_missing initial_attachment_state_def)
  have log: "as_log st = []"
    by (simp add: st_def resolve_outputs_log none_missing initial_attachment_state_def)
  have pass: "as_renderpass st = rp"
    by (simp add: st_def resolve_outputs_pass_kept [OF nobb] initial_attachment_state_def)
  have colors: "color_attachments st =
      map (\<lambda>(n, rt). tex_image rt) (resolved_outputs rs (texture_outputs ci))"
    by (simp add: st_def resolve_outputs_colors [OF nobb] initial_attachment_state_def)
  have "attachment_errors st = attachment_errors (initial_attachment_state rp)
      \<and> (texture_outputs ci \<noteq> [] \<longrightarrow> framebuffer_size st = (ucast w, ucast h))"
    unfolding st_def
    by (rule resolve_outputs_common_size [OF common]) (simp add: initial_attachment_state_def)
  then have errors: "attachment_errors st = []" and size: "framebuffer_size st = (ucast w, ucast h)"
    using outs by (simp_all add: initial_attachment_state_def)
  define p where "p = (as_renderpass st)
           \<lparr>renderpass := Some r,
            framebuffer :=
              (if writes_to_backbuffer (as_renderpass st) then framebuffer (as_renderpass st)
               else device_create_framebuffer device r (color_attachments st)
                      (fst (take_depth_attachment rs ci)) (framebuffer_size st)),
            pipeline_names := ci_pipeline_names ci,
            pass_id := of_nat (fcard (fmdom (renderpass_metadatas g)))\<rparr>"
  have rp': "device_create_renderpass device ci (framebuffer_size st) = Some r"
    using rp size by simp
  note created = add_renderpass_created [OF st_def missing errors rp' p_def]
  have "renderpass p = Some r" by (simp add: p_def)
  moreover have "framebuffer p = Some f"
    using fresh fb by (simp add: p_def pass colors size)
  ultimately show ?thesis
    by (simp add: created log)
qed

theorem consistent_attachments_succeed_witness:
  "map_option framebuffer
     (returned (add_renderpass ''backbuffer'' example_device empty_graph (new_pass ''gbuffer'')
        (pass_info ''gbuffer'' [''albedo''] (Some ''depth'')) example_resources)) = Some (Some 2)
   \<and> logged (add_renderpass ''backbuffer'' example_device empty_graph (new_pass ''gbuffer'')
        (pass_info ''gbuffer'' [''albedo''] (Some ''depth'')) example_resources) = []"
proof -
  have "\<exists>p. returned (add_renderpass ''backbuffer'' example_device empty_graph
            (new_pass ''gbuffer'') (pass_info ''gbuffer'' [''albedo''] (Some ''depth''))
            example_resources) = Some p
      \<and> renderpass p = Some 1 \<and> framebuffer p = Some 2
      \<and> fmlookup (renderpasses (graph (add_renderpass ''backbuffer'' example_device empty_graph
            (new_pass ''gbuffer'') (pass_info ''gbuffer'' [''albedo''] (Some ''depth''))
            example_resources))) (ci_name (pass_info ''gbuffer'' [''albedo''] (Some ''depth''))) = Some p
      \<and> logged (add_renderpass ''backbuffer'' example_device empty_graph
            (new_pass ''gbuffer'') (pass_info ''gbuffer'' [''albedo''] (Some ''depth''))
            example_resources) = []"
    by (rule consistent_attachments_succeed [where w = 1920 and h = 1080])
      (simp_all add: example_defs get_render_target_def)
  then show ?thesis by auto
qed

text \<open>
  Claim C4 as stated fails when the device returns a null renderpass: the attachments
  below resolve to one size, and the call returns null.
\<close>

theorem consistent_attachments_device_failure:
  "map_option attachment_size (get_render_target example_resources ''albedo'') = Some (1920, 1080)
   \<and> map_option attachment_size (get_render_target example_resources ''depth'') = Some (1920, 1080)
   \<and> returned (add_renderpass ''backbuffer'' null_renderpass_device empty_graph
        (new_pass ''gbuffer'') (pass_info ''gbuffer'' [''albedo''] (Some ''depth''))
        example_resources) = None"
  by (simp add: run_defs example_defs attachment_size_def)

section \<open>Attachment sizes\<close>

text \<open>
  Claim C2, as amended. For a pass none of whose declared outputs is the backbuffer and all
  of whose declared outputs resolve: the first resolved output of non-zero width sets the
  expected size, and every later output whose width or height (as 32-bit values) differs
  from it is recorded as an error. When at least one such mismatch exists, the recorded
  mismatches are logged together, in declaration order, followed by one summary line; the
  call returns null and leaves the graph as it was. When none exists, no attachment error
  is logged. The depth attachment is not part of this statement.
\<close>

theorem size_mismatches_recorded_and_reported:
  assumes nobb: "\<forall>a \<in> set (texture_outputs ci). att_name a \<noteq> B"
    and resolved: "\<forall>a \<in> set (texture_outputs ci). get_render_target rs (att_name a) \<noteq> None"
  shows "(expected_mismatches (ci_name ci) (resolved_outputs rs (texture_outputs ci)) \<noteq> [] \<longrightarrow>
            returned (add_renderpass B device g rp ci rs) = None
          \<and> graph (add_renderpass B device g rp ci rs) = g
          \<and> logged (add_renderpass B device g rp ci rs) =
              map AttachmentError
                (expected_mismatches (ci_name ci) (resolved_outputs rs (texture_outputs ci)))
              @ [AttachmentSpecificationErrors (ci_name ci)])
       \<and> (expected_mismatches (ci_name ci) (resolved_outputs rs (texture_outputs ci)) = [] \<longrightarrow>
            (\<forall>e. AttachmentError e \<notin> set (logged (add_renderpass B device g rp ci rs))))"
proof -
  define st where
    "st = resolve_outputs B device rs ci (initial_attachment_state rp) (texture_outputs ci)"
  have none_missing: "missing_outputs B rs (texture_outputs ci) = []"
    using resolved by (auto simp: missing_outputs_def filter_empty_conv)
  have missing: "\<not> missing_render_targets st"
    by (simp add: st_def resolve_outputs_missing none_missing initial_attachment_state_def)
  have log: "as_log st = []"
    by (simp add: st_def resolve_outputs_log none_missing initial_attachment_state_def)
  have errors: "attachment_errors st =
      expected_mismatches (ci_name ci) (resolved_outputs rs (texture_outputs ci))"
    unfolding st_def
    by (simp add: resolve_outputs_errors_unsized [OF nobb] initial_attachment_state_def)
  show ?thesis
  proof (cases "attachment_errors st = []")
    case False
    from add_renderpass_errors [OF missing False st_def, of g]
    show ?thesis using False by (simp add: errors log)
  next
    case True
    show ?thesis
    proof (cases "device_create_renderpass device ci (framebuffer_size st)")
      case None
      from add_renderpass_device_failure [OF st_def missing True None, of g]
      show ?thesis using True by (simp add: errors log)
    next
      case (Some r)
      from add_renderpass_created [OF st_def missing True Some refl, of g]
      show ?thesis using True by (simp add: errors log)
    qed
  qed
qed

theorem size_mismatches_recorded_and_reported_witness:
  "returned (add_renderpass ''backbuffer'' example_device empty_graph (new_pass ''lighting'')
      (pass_info ''lighting'' [''albedo'', ''normals''] None) example_resources) = None
   \<and> graph (add_renderpass ''backbuffer'' example_device empty_graph (new_pass ''lighting'')
      (pass_info ''lighting'' [''albedo'', ''normals''] None) example_resources) = empty_graph
   \<and> logged (add_renderpass ''backbuffer'' example_device empty_graph (new_pass ''lighting'')
      (pass_info ''lighting'' [''albedo'', ''normals''] None) example_resources) =
     [AttachmentError (SizeMismatch ''normals'' (800, 600) ''lighting'' (1920, 1080)),
      AttachmentSpecificationErrors ''lighting'']"
proof -
  have mismatches: "expected_mismatches ''lighting''
      (resolved_outputs example_resources
        (texture_outputs (pass_info ''lighting'' [''albedo'', ''normals''] None))) =
      [SizeMismatch ''normals'' (800, 600) ''lighting'' (1920, 1080)]"
    by (simp add: expected_mismatches_def resolved_outputs_def get_render_target_def
        attachment_size_def example_defs)
  show ?thesis
    using size_mismatches_recorded_and_reported
      [where ci = "pass_info ''lighting'' [''albedo'', ''normals''] None" and B = "''backbuffer''"
         and rs = example_resources and device = example_device and g = empty_graph
         and rp = "new_pass ''lighting''"] mismatches
    by (simp add: pass_info_def get_render_target_def example_resources_def)
qed

text \<open>
  Claim C2 as stated fails on three inputs. A missing render target hides the recorded
  mismatches: of the outputs \<open>albedo\<close> (1920 by 1080), \<open>normals\<close> (800 by 600) and
  \<open>shadow\<close> (not in the registry), the mismatch of \<open>normals\<close> is recorded, and the call
  returns after the loop with only the missing name logged. A backbuffer output resets the
  expected size to the swapchain's: of the outputs \<open>albedo\<close>, backbuffer, \<open>normals\<close> with
  a swapchain of 800 by 600, only the backbuffer conflict is recorded, not the mismatch
  between \<open>normals\<close> and \<open>albedo\<close>. And a first output of width zero does not set the
  expected size: the outputs \<open>empty\<close> (0 by 4) and \<open>albedo\<close> differ in size, yet no
  error is recorded and the pass is created.
\<close>

theorem size_mismatch_unreported_or_unrecorded:
  "attachment_errors (resolve_outputs ''backbuffer'' example_device example_resources
        (pass_info ''lighting'' [''albedo'', ''normals'', ''shadow''] None)
        (initial_attachment_state (new_pass ''lighting''))
        (texture_outputs (pass_info ''lighting'' [''albedo'', ''normals'', ''shadow''] None))) =
       [SizeMismatch ''normals'' (800, 600) ''lighting'' (1920, 1080)]
   \<and> logged (add_renderpass ''backbuffer'' example_device empty_graph (new_pass ''lighting'')
        (pass_info ''lighting'' [''albedo'', ''normals'', ''shadow''] None) example_resources) =
       [NoRenderTargetNamed ''shadow'']
   \<and> logged (add_renderpass ''backbuffer'' example_device empty_graph (new_pass ''lighting'')
        (pass_info ''lighting'' [''albedo'', ''backbuffer'', ''normals''] None) example_resources) =
       [AttachmentError (BackbufferAndOthers ''lighting'' 2),
        AttachmentSpecificationErrors ''lighting'']
   \<and> map_option attachment_size (get_render_target example_resources ''empty'') = Some (0, 4)
   \<and> map_option attachment_size (get_render_target example_resources ''albedo'')
        = Some (1920, 1080)
   \<and> returned (add_renderpass ''backbuffer'' example_device empty_graph (new_pass ''lighting'')
        (pass_info ''lighting'' [''empty'', ''albedo''] None) example_resources) \<noteq> None
   \<and> logged (add_renderpass ''backbuffer'' example_device empty_graph (new_pass ''lighting'')
        (pass_info ''lighting'' [''empty'', ''albedo''] None) example_resources) = []"
  by (simp add: run_defs example_defs attachment_size_def)

text \<open>
  The depth attachment takes no part in the comparison: with the output \<open>albedo\<close>
  (1920 by 1080) and the depth texture \<open>small_depth\<close> (800 by 600) the pass is created
  and nothing is logged.
\<close>

lemma depth_size_is_not_compared:
  "map_option attachment_size (get_render_target example_resources ''small_depth'')
     = Some (800, 600)
   \<and> returned (add_renderpass ''backbuffer'' example_device empty_graph (new_pass ''gbuffer'')
        (pass_info ''gbuffer'' [''albedo''] (Some ''small_depth'')) example_resources) \<noteq> None
   \<and> logged (add_renderpass ''backbuffer'' example_device empty_graph (new_pass ''gbuffer'')
        (pass_info ''gbuffer'' [''albedo''] (Some ''small_depth'')) example_resources) = []"
  by (simp add: run_defs example_defs attachment_size_def)

section \<open>Missing render targets\<close>

text \<open>
  The declared outputs: when one or more output names other than the backbuffer have no
  registry entry, \<^verbatim>\<open>add_renderpass\<close> logs every one of them, in declaration order and
  nothing else, returns null, and leaves the graph and the registry as they were.
\<close>

theorem missing_outputs_all_reported:
  assumes "missing_outputs B rs (texture_outputs ci) \<noteq> []"
  shows "returned (add_renderpass B device g rp ci rs) = None
       \<and> graph (add_renderpass B device g rp ci rs) = g
       \<and> resources (add_renderpass B device g rp ci rs) = rs
       \<and> logged (add_renderpass B device g rp ci rs) =
           map NoRenderTargetNamed (missing_outputs B rs (texture_outputs ci))"
proof -
  have "missing_render_targets
     (resolve_outputs B device rs ci (initial_attachment_state rp) (texture_outputs ci))"
    using assms by (simp add: resolve_outputs_missing)
  from add_renderpass_missing [OF this, of g]
  show ?thesis
    by (simp add: resolve_outputs_log initial_attachment_state_def)
qed

theorem missing_outputs_all_reported_witness:
  "returned (add_renderpass ''backbuffer'' example_device empty_graph (new_pass ''lighting'')
      (pass_info ''lighting'' [''shadow'', ''albedo'', ''glow''] None) example_resources) = None
   \<and> graph (add_renderpass ''backbuffer'' example_device empty_graph (new_pass ''lighting'')
      (pass_info ''lighting'' [''shadow'', ''albedo'', ''glow''] None) example_resources) = empty_graph
   \<and> logged (add_renderpass ''backbuffer'' example_device empty_graph (new_pass ''lighting'')
      (pass_info ''lighting'' [''shadow'', ''albedo'', ''glow''] None) example_resources) =
     [NoRenderTargetNamed ''shadow'', NoRenderTargetNamed ''glow'']"
proof -
  have missing: "missing_outputs ''backbuffer'' example_resources
      (texture_outputs (pass_info ''lighting'' [''shadow'', ''albedo'', ''glow''] None)) =
      [''shadow'', ''glow'']"
    by (simp add: missing_outputs_def get_render_target_def example_defs)
  show ?thesis
    using missing_outputs_all_reported
      [where ci = "pass_info ''lighting'' [''shadow'', ''albedo'', ''glow''] None"
         and B = "''backbuffer''" and rs = example_resources and device = example_device
         and g = empty_graph and rp = "new_pass ''lighting''"] missing
    by simp
qed

text \<open>
  Claim C5 at a declared depth texture whose name has no registry entry: the claim says
  that the missing name is reported and the call aborts with a null result. The code
  reports nothing, creates the pass without a depth attachment, and registers it.
\<close>

theorem missing_depth_texture_is_ignored:
  "get_render_target example_resources ''shadow'' = None
   \<and> returned (add_renderpass ''backbuffer'' example_device empty_graph (new_pass ''gbuffer'')
        (pass_info ''gbuffer'' [''albedo''] (Some ''shadow'')) example_resources) \<noteq> None
   \<and> fmlookup (renderpasses (graph (add_renderpass ''backbuffer'' example_device empty_graph
        (new_pass ''gbuffer'') (pass_info ''gbuffer'' [''albedo''] (Some ''shadow''))
        example_resources))) ''gbuffer'' \<noteq> None
   \<and> logged (add_renderpass ''backbuffer'' example_device empty_graph (new_pass ''gbuffer'')
        (pass_info ''gbuffer'' [''albedo''] (Some ''shadow'')) example_resources) = []"
  by (simp add: run_defs example_defs)

section \<open>Device creation failure\<close>

text \<open>
  Claim C3 at a device that returns a renderpass and a null framebuffer: the claim says
  that the failure is reported and the pass is not created. The code does not test the
  framebuffer: it returns the pass with a null framebuffer, inserts it into the pass map
  and the metadata map, and logs nothing.
\<close>

theorem null_framebuffer_still_registers_pass:
  "returned (add_renderpass ''backbuffer'' null_framebuffer_device empty_graph
        (new_pass ''gbuffer'') (pass_info ''gbuffer'' [''albedo''] None) example_resources) =
     Some ((new_pass ''gbuffer'')\<lparr>renderpass := Some 1, framebuffer := None\<rparr>)
   \<and> fmlookup (renderpasses (graph (add_renderpass ''backbuffer'' null_framebuffer_device
        empty_graph (new_pass ''gbuffer'') (pass_info ''gbuffer'' [''albedo''] None)
        example_resources))) ''gbuffer'' =
     Some ((new_pass ''gbuffer'')\<lparr>renderpass := Some 1, framebuffer := None\<rparr>)
   \<and> fmdom (renderpass_metadatas (graph (add_renderpass ''backbuffer'' null_framebuffer_device
        empty_graph (new_pass ''gbuffer'') (pass_info ''gbuffer'' [''albedo''] None)
        example_resources))) = {|''gbuffer''|}
   \<and> logged (add_renderpass ''backbuffer'' null_framebuffer_device empty_graph
        (new_pass ''gbuffer'') (pass_info ''gbuffer'' [''albedo''] None) example_resources) = []"
  by (simp add: run_defs example_defs fcard_fempty)

section \<open>The depth image leaves the registry\<close>




section \<open>Pass ids\<close>

lemma add_renderpass_returned_Some:
  assumes "returned (add_renderpass B device g rp ci rs) = Some p"
  shows "pass_id p = of_nat (fcard (fmdom (renderpass_metadatas g)))
       \<and> graph (add_renderpass B device g rp ci rs) =
           (destroy_renderpass (ci_name ci) g)
             \<lparr>renderpasses :=
                fmupd (ci_name ci) p (renderpasses (destroy_renderpass (ci_name ci) g)),
              renderpass_metadatas := fmupd (ci_name ci) \<lparr>data = ci\<rparr>
                (renderpass_metadatas (destroy_renderpass (ci_name ci) g)),
              is_dirty := True\<rparr>"
proof -
  define st where
    "st = resolve_outputs B device rs ci (initial_attachment_state rp) (texture_outputs ci)"
  have missing: "\<not> missing_render_targets st"
  proof
    assume "missing_render_targets st"
    from add_renderpass_missing [OF this [unfolded st_def], of g] assms
    show False by simp
  qed
  have errors: "attachment_errors st = []"
  proof (rule ccontr)
    assume "attachment_errors st \<noteq> []"
    from add_renderpass_errors [OF missing this st_def, of g] assms
    show False by simp
  qed
  obtain r where r: "device_create_renderpass device ci (framebuffer_size st) = Some r"
  proof (cases "device_create_renderpass device ci (framebuffer_size st)")
    case None
    from add_renderpass_device_failure [OF st_def missing errors None, of g] assms
    show ?thesis by simp
  next
    case (Some r)
    then show ?thesis by (rule that)
  qed
  from add_renderpass_created [OF st_def missing errors r refl, of g] assms
  show ?thesis by auto
qed

lemma destroy_renderpass_absent:
  "fmlookup (renderpasses g) n = None \<Longrightarrow> destroy_renderpass n g = g"
  by (simp add: destroy_renderpass_def)

text \<open>
  Claim C6, as amended. The id of a pass is assigned at registration as the number of
  metadata entries at the time of the call, cast to 32 bits. When the name is not
  registered yet, fewer than \<open>2 ^ 32\<close> passes are registered, and every id in use is
  below the number of registered passes (as in the empty graph, and again after every such
  call), the new id is greater than every id in use. Nothing is said of ids assigned
  after a pass was destroyed or replaced.
\<close>

theorem fresh_pass_id_above_ids_in_use:
  assumes inv: "ids_below_count g"
    and small: "fcard (fmdom (renderpass_metadatas g)) < 2 ^ 32"
    and fresh: "fmlookup (renderpasses g) (ci_name ci) = None"
    and ok: "returned (add_renderpass B device g rp ci rs) = Some p"
  shows "pass_id p = of_nat (fcard (fmdom (renderpass_metadatas g)))
       \<and> (\<forall>n q. fmlookup (renderpasses g) n = Some q \<longrightarrow> pass_id q < pass_id p)
       \<and> ids_below_count (graph (add_renderpass B device g rp ci rs))"
proof -
  let ?count = "fcard (fmdom (renderpass_metadatas g))"
  from add_renderpass_returned_Some [OF ok]
  have id: "pass_id p = of_nat ?count"
    and g': "graph (add_renderpass B device g rp ci rs) =
      g\<lparr>renderpasses := fmupd (ci_name ci) p (renderpasses g),
        renderpass_metadatas := fmupd (ci_name ci) \<lparr>data = ci\<rparr> (renderpass_metadatas g),
        is_dirty := True\<rparr>"
    by (simp_all add: destroy_renderpass_absent [OF fresh])
  have unat_id: "unat (pass_id p) = ?count"
    using small by (simp add: id unat_of_nat take_bit_nat_eq_self)
  from inv have doms: "fmdom (renderpasses g) = fmdom (renderpass_metadatas g)"
    and below: "\<And>n q. fmlookup (renderpasses g) n = Some q \<Longrightarrow> unat (pass_id q) < ?count"
    by (auto simp: ids_below_count_def)
  have above: "\<forall>n q. fmlookup (renderpasses g) n = Some q \<longrightarrow> pass_id q < pass_id p"
    using below by (auto simp: word_less_nat_alt unat_id)
  have "ci_name ci |\<notin>| fmdom (renderpass_metadatas g)"
    using fresh doms by (metis fmdom_notI)
  then have count': "fcard (fmdom (fmupd (ci_name ci) \<lparr>data = ci\<rparr> (renderpass_metadatas g)))
      = Suc ?count"
    by (simp add: fcard_finsert_disjoint)
  have "ids_below_count (graph (add_renderpass B device g rp ci rs))"
    unfolding ids_below_count_def g'
    using doms below unat_id count' by (auto simp: less_Suc_eq)
  with id above show ?thesis by simp
qed

lemma ids_below_count_empty: "ids_below_count empty_graph"
  by (simp add: ids_below_count_def empty_graph_def)

theorem fresh_pass_id_above_ids_in_use_witness:
  "map_option pass_id (returned (add_example_pass ''b'' (graph (add_example_pass ''a'' empty_graph))))
     = Some 1
   \<and> map_option pass_id
        (fmlookup (renderpasses (graph (add_example_pass ''a'' empty_graph))) ''a'') = Some 0
   \<and> ids_below_count (graph (add_example_pass ''a'' empty_graph))"
proof -
  have first: "returned (add_example_pass ''a'' empty_graph) = Some ((new_pass ''a'')\<lparr>renderpass := Some 1, framebuffer := Some 2\<rparr>)"
    by (simp add: add_example_pass_def run_defs example_defs fcard_fempty)
  have "fcard (fmdom (renderpass_metadatas empty_graph)) < 2 ^ 32"
    by (simp add: empty_graph_def fcard_fempty)
  from fresh_pass_id_above_ids_in_use [OF ids_below_count_empty this _ first [unfolded add_example_pass_def]]
  have "ids_below_count (graph (add_example_pass ''a'' empty_graph))"
    by (simp add: add_example_pass_def empty_graph_def pass_info_def)
  moreover have "map_option pass_id (returned (add_example_pass ''b'' (graph (add_example_pass ''a'' empty_graph)))) = Some 1"
    by (simp add: add_example_pass_def run_defs example_defs fcard_fempty fcard_finsert_if)
  moreover have "map_option pass_id
        (fmlookup (renderpasses (graph (add_example_pass ''a'' empty_graph))) ''a'') = Some 0"
    by (simp add: add_example_pass_def run_defs example_defs fcard_fempty)
  ultimately show ?thesis by simp
qed

text \<open>
  Claim C6 as stated fails after a destroy: with \<open>a\<close> and \<open>b\<close> registered (ids 0 and 1)
  and \<open>a\<close> destroyed, the new pass \<open>c\<close> gets the id 1, which \<open>b\<close> still has.
\<close>

theorem pass_id_repeats_after_destroy:
  "map_option pass_id (fmlookup (renderpasses
      (destroy_renderpass ''a''
        (graph (add_example_pass ''b'' (graph (add_example_pass ''a'' empty_graph)))))) ''b'')
     = Some 1
   \<and> map_option pass_id (returned (add_example_pass ''c''
      (destroy_renderpass ''a''
        (graph (add_example_pass ''b'' (graph (add_example_pass ''a'' empty_graph)))))))
     = Some 1"
  by (simp add: add_example_pass_def run_defs example_defs fcard_fempty fcard_finsert_if)

section \<open>The cached execution order\<close>

text \<open>
  Claim C8. \<^verbatim>\<open>calculate_renderpass_execution_order\<close> is idempotent: a second call with no
  mutation in between returns the same sequence and leaves the same graph; when the cached
  order is fresh, the call returns the cached value and the graph as it is, whatever the
  recomputation would give; and after every call the staleness flag is clear.
\<close>

theorem execution_order_idempotent:
  "fst (calculate_renderpass_execution_order order_passes
          (snd (calculate_renderpass_execution_order order_passes g)))
     = fst (calculate_renderpass_execution_order order_passes g)
   \<and> snd (calculate_renderpass_execution_order order_passes
          (snd (calculate_renderpass_execution_order order_passes g)))
     = snd (calculate_renderpass_execution_order order_passes g)
   \<and> (\<not> is_dirty g \<longrightarrow>
        calculate_renderpass_execution_order order_passes g = (cached_execution_order g, g))
   \<and> \<not> is_dirty (snd (calculate_renderpass_execution_order order_passes g))"
  by (simp add: calculate_renderpass_execution_order_def Let_def)

theorem execution_order_idempotent_witness:
  "fst (calculate_renderpass_execution_order (\<lambda>m. [''gbuffer'', ''lighting''])
          (snd (calculate_renderpass_execution_order (\<lambda>m. [''gbuffer'', ''lighting''])
             (empty_graph\<lparr>is_dirty := True\<rparr>))))
     = [''gbuffer'', ''lighting'']
   \<and> calculate_renderpass_execution_order (\<lambda>m. [''gbuffer'', ''lighting'']) empty_graph
     = ([], empty_graph)"
proof -
  have "fst (calculate_renderpass_execution_order (\<lambda>m. [''gbuffer'', ''lighting''])
      (empty_graph\<lparr>is_dirty := True\<rparr>)) = [''gbuffer'', ''lighting'']"
    by (simp add: calculate_renderpass_execution_order_def Let_def)
  moreover have "\<not> is_dirty empty_graph" "cached_execution_order empty_graph = []"
    by (simp_all add: empty_graph_def)
  ultimately show ?thesis
    using execution_order_idempotent [of "\<lambda>m. [''gbuffer'', ''lighting'']" "empty_graph\<lparr>is_dirty := True\<rparr>"]
      execution_order_idempotent [of "\<lambda>m. [''gbuffer'', ''lighting'']" empty_graph]
    by simp
qed

section \<open>Destroying a pass that is not registered\<close>

text \<open>
  Claim C9. \<^verbatim>\<open>destroy_renderpass\<close> called with a name that is not in the pass map leaves
  the graph as it is: the pass map, the metadata map, the cached order and the staleness
  flag are unchanged.
\<close>

theorem destroy_missing_renderpass_is_noop:
  assumes "fmlookup (renderpasses g) n = None"
  shows "destroy_renderpass n g = g"
  using assms by (rule destroy_renderpass_absent)

theorem destroy_missing_renderpass_is_noop_witness:
  "destroy_renderpass ''missing'' (graph (add_example_pass ''a'' empty_graph))
     = graph (add_example_pass ''a'' empty_graph)"
  by (rule destroy_missing_renderpass_is_noop)
    (simp add: add_example_pass_def run_defs example_defs)

section \<open>Staging buffers\<close>

lemma fitting_bucketD:
  assumes "k |\<in>| fitting_buckets sz pool"
  obtains b bs where "fmlookup pool k = Some (b # bs)" and "sz \<le> k"
  using assms by (auto simp: fitting_buckets_def split: option.splits list.splits)

lemma fitting_bucketI:
  "fmlookup pool k = Some (b # bs) \<Longrightarrow> sz \<le> k \<Longrightarrow> k |\<in>| fitting_buckets sz pool"
  by (auto simp: fitting_buckets_def intro: fmdomI)

lemma get_staging_buffer_new:
  "fitting_buckets sz (staging_buffers res) = {||} \<Longrightarrow>
   get_staging_buffer_with_size sz res = allocate_staging_buffer sz res"
  by (simp add: get_staging_buffer_with_size_def)

lemma get_staging_buffer_reused:
  assumes "fitting_buckets sz (staging_buffers res) \<noteq> {||}"
  obtains k b bs where "k = fMin (fitting_buckets sz (staging_buffers res))"
    and "fmlookup (staging_buffers res) k = Some (b # bs)" and "sz \<le> k"
    and "get_staging_buffer_with_size sz res =
           (b, res\<lparr>staging_buffers := fmupd k bs (staging_buffers res)\<rparr>)"
proof -
  let ?k = "fMin (fitting_buckets sz (staging_buffers res))"
  have "?k |\<in>| fitting_buckets sz (staging_buffers res)"
    using assms by simp
  then obtain b bs where look: "fmlookup (staging_buffers res) ?k = Some (b # bs)" and "sz \<le> ?k"
    by (rule fitting_bucketD)
  moreover have "get_staging_buffer_with_size sz res =
           (b, res\<lparr>staging_buffers := fmupd ?k bs (staging_buffers res)\<rparr>)"
    using assms look by (simp add: get_staging_buffer_with_size_def)
  ultimately show ?thesis using that by blast
qed

lemma pool_ok_release:
  "pool_ok res \<Longrightarrow> pool_ok (release_staging_buffer b res)"
  unfolding pool_ok_def release_staging_buffer_def
  by (cases "fmlookup (staging_buffers res) (buffer_size b)") (auto split: if_splits)

lemma release_makes_bucket_fit:
  "m \<le> buffer_size b \<Longrightarrow>
   buffer_size b |\<in>| fitting_buckets m (staging_buffers (release_staging_buffer b res))"
  by (rule fitting_bucketI [where b = b]) (simp_all add: release_staging_buffer_def)

text \<open>
  Claim C10. In a pool whose free buffers each sit in the bucket of their capacity (the
  empty pool is one, and requests and releases keep it so), every call
  \<^verbatim>\<open>get_staging_buffer_with_size(N)\<close> returns a buffer of capacity at least \<open>N\<close>. When
  some bucket fits (capacity at least \<open>N\<close>, free list not empty), the buffer returned is an
  existing free entry, the head of the free list of the smallest bucket that fits; it
  leaves that free list and nothing else changes, so the device allocates nothing. Only
  when no bucket fits does the device allocate one buffer, of capacity \<open>N\<close>. A released
  buffer returns to the free list of its bucket; after the release of a buffer of capacity
  at least \<open>N\<close>, a request of a size up to \<open>N\<close> finds a bucket that fits and allocates
  nothing, and it returns the released buffer itself when its bucket is the smallest that
  fits.
\<close>

theorem staging_buffer_large_enough_and_reused:
  assumes ok: "pool_ok res"
  shows "sz \<le> buffer_size (fst (get_staging_buffer_with_size sz res))
       \<and> pool_ok (snd (get_staging_buffer_with_size sz res))
       \<and> (fitting_buckets sz (staging_buffers res) \<noteq> {||} \<longrightarrow>
            (\<exists>k bs. k |\<in>| fitting_buckets sz (staging_buffers res)
               \<and> (\<forall>k'. k' |\<in>| fitting_buckets sz (staging_buffers res) \<longrightarrow> k \<le> k')
               \<and> fmlookup (staging_buffers res) k
                    = Some (fst (get_staging_buffer_with_size sz res) # bs)
               \<and> buffer_size (fst (get_staging_buffer_with_size sz res)) = k
               \<and> snd (get_staging_buffer_with_size sz res)
                    = res\<lparr>staging_buffers := fmupd k bs (staging_buffers res)\<rparr>))
       \<and> (fitting_buckets sz (staging_buffers res) = {||} \<longrightarrow>
            get_staging_buffer_with_size sz res =
              (\<lparr>buffer_handle = num_allocations res, buffer_size = sz\<rparr>,
               res\<lparr>num_allocations := Suc (num_allocations res)\<rparr>))
       \<and> (\<forall>b m. m \<le> buffer_size b \<longrightarrow>
            fitting_buckets m (staging_buffers (release_staging_buffer b res)) \<noteq> {||}
          \<and> num_allocations (snd (get_staging_buffer_with_size m (release_staging_buffer b res)))
               = num_allocations res
          \<and> m \<le> buffer_size (fst (get_staging_buffer_with_size m (release_staging_buffer b res)))
          \<and> ((\<forall>k'. k' |\<in>| fitting_buckets m (staging_buffers (release_staging_buffer b res))
                    \<longrightarrow> buffer_size b \<le> k') \<longrightarrow>
               fst (get_staging_buffer_with_size m (release_staging_buffer b res)) = b))
       \<and> (\<forall>b. pool_ok (release_staging_buffer b res)
              \<and> fmlookup (staging_buffers (release_staging_buffer b res)) (buffer_size b)
                   = Some (b # (case fmlookup (staging_buffers res) (buffer_size b) of
                                  None \<Rightarrow> [] | Some bs \<Rightarrow> bs)))"
proof -
  have reuse: "sz' \<le> buffer_size (fst (get_staging_buffer_with_size sz' res'))
       \<and> pool_ok (snd (get_staging_buffer_with_size sz' res'))
       \<and> (\<exists>k bs. k |\<in>| fitting_buckets sz' (staging_buffers res')
               \<and> (\<forall>k'. k' |\<in>| fitting_buckets sz' (staging_buffers res') \<longrightarrow> k \<le> k')
               \<and> fmlookup (staging_buffers res') k
                    = Some (fst (get_staging_buffer_with_size sz' res') # bs)
               \<and> buffer_size (fst (get_staging_buffer_with_size sz' res')) = k
               \<and> snd (get_staging_buffer_with_size sz' res')
                    = res'\<lparr>staging_buffers := fmupd k bs (staging_buffers res')\<rparr>)
       \<and> num_allocations (snd (get_staging_buffer_with_size sz' res')) = num_allocations res'"
    if ok': "pool_ok res'" and fits: "fitting_buckets sz' (staging_buffers res') \<noteq> {||}"
    for sz' res'
  proof -
    from fits obtain k b bs where k: "k = fMin (fitting_buckets sz' (staging_buffers res'))"
      and look: "fmlookup (staging_buffers res') k = Some (b # bs)" and le: "sz' \<le> k"
      and get: "get_staging_buffer_with_size sz' res' =
           (b, res'\<lparr>staging_buffers := fmupd k bs (staging_buffers res')\<rparr>)"
      by (rule get_staging_buffer_reused)
    have size: "buffer_size b = k"
      using ok' look by (auto simp: pool_ok_def)
    have kept: "pool_ok (res'\<lparr>staging_buffers := fmupd k bs (staging_buffers res')\<rparr>)"
      using ok' look by (auto simp: pool_ok_def split: if_splits)
    have member: "k |\<in>| fitting_buckets sz' (staging_buffers res')"
      using fits by (simp add: k)
    have least: "\<forall>k'. k' |\<in>| fitting_buckets sz' (staging_buffers res') \<longrightarrow> k \<le> k'"
      by (simp add: k)
    have "\<exists>k bs. k |\<in>| fitting_buckets sz' (staging_buffers res')
               \<and> (\<forall>k'. k' |\<in>| fitting_buckets sz' (staging_buffers res') \<longrightarrow> k \<le> k')
               \<and> fmlookup (staging_buffers res') k
                    = Some (fst (get_staging_buffer_with_size sz' res') # bs)
               \<and> buffer_size (fst (get_staging_buffer_with_size sz' res')) = k
               \<and> snd (get_staging_buffer_with_size sz' res')
                    = res'\<lparr>staging_buffers := fmupd k bs (staging_buffers res')\<rparr>"
      using member least look size by (intro exI [of _ k] exI [of _ bs]) (simp add: get)
    then show ?thesis using le kept by (simp add: get size)
  qed
  have fresh: "get_staging_buffer_with_size sz res =
              (\<lparr>buffer_handle = num_allocations res, buffer_size = sz\<rparr>,
               res\<lparr>num_allocations := Suc (num_allocations res)\<rparr>)"
    if "fitting_buckets sz (staging_buffers res) = {||}"
    using that by (simp add: get_staging_buffer_new allocate_staging_buffer_def)
  have released: "fitting_buckets m (staging_buffers (release_staging_buffer b res)) \<noteq> {||}
          \<and> num_allocations (snd (get_staging_buffer_with_size m (release_staging_buffer b res)))
               = num_allocations res
          \<and> m \<le> buffer_size (fst (get_staging_buffer_with_size m (release_staging_buffer b res)))
          \<and> ((\<forall>k'. k' |\<in>| fitting_buckets m (staging_buffers (release_staging_buffer b res))
                    \<longrightarrow> buffer_size b \<le> k') \<longrightarrow>
               fst (get_staging_buffer_with_size m (release_staging_buffer b res)) = b)"
    if "m \<le> buffer_size b" for b m
  proof -
    let ?res = "release_staging_buffer b res"
    have own: "buffer_size b |\<in>| fitting_buckets m (staging_buffers ?res)"
      by (rule release_makes_bucket_fit [OF that])
    then have fits: "fitting_buckets m (staging_buffers ?res) \<noteq> {||}"
      by auto
    note got = reuse [OF pool_ok_release [OF ok] fits]
    have same: "fst (get_staging_buffer_with_size m ?res) = b"
      if least: "\<forall>k'. k' |\<in>| fitting_buckets m (staging_buffers ?res) \<longrightarrow> buffer_size b \<le> k'"
    proof -
      from got obtain k bs where "k |\<in>| fitting_buckets m (staging_buffers ?res)"
        and "\<forall>k'. k' |\<in>| fitting_buckets m (staging_buffers ?res) \<longrightarrow> k \<le> k'"
        and look: "fmlookup (staging_buffers ?res) k
            = Some (fst (get_staging_buffer_with_size m ?res) # bs)"
        by blast
      with own least have "k = buffer_size b"
        by (meson order_antisym)
      moreover have "fmlookup (staging_buffers ?res) (buffer_size b)
          = Some (b # (case fmlookup (staging_buffers res) (buffer_size b) of
                         None \<Rightarrow> [] | Some bs \<Rightarrow> bs))"
        by (simp add: release_staging_buffer_def)
      ultimately show ?thesis
        using look by simp
    qed
    from got fits same show ?thesis
      by (simp add: release_staging_buffer_def)
  qed
  have put: "pool_ok (release_staging_buffer b res)
              \<and> fmlookup (staging_buffers (release_staging_buffer b res)) (buffer_size b)
                   = Some (b # (case fmlookup (staging_buffers res) (buffer_size b) of
                                  None \<Rightarrow> [] | Some bs \<Rightarrow> bs))" for b
    using pool_ok_release [OF ok, of b] by (simp add: release_staging_buffer_def)
  show ?thesis
  proof (cases "fitting_buckets sz (staging_buffers res) = {||}")
    case True
    have "pool_ok (res\<lparr>num_allocations := Suc (num_allocations res)\<rparr>)"
      using ok by (simp add: pool_ok_def)
    with fresh [OF True] released put True show ?thesis by simp
  next
    case False
    from reuse [OF ok False] released put False show ?thesis by simp
  qed
qed

lemma example_pool_ok: "pool_ok example_pool"
  by (auto simp: pool_ok_def example_pool_def staging_buffer_def split: if_splits)

lemma example_pool_fitting:
  "fitting_buckets 5 (staging_buffers example_pool) = {|8, 16|}"
  by (auto simp: fitting_buckets_def example_pool_def split: if_splits)

theorem staging_buffer_large_enough_and_reused_witness:
  "get_staging_buffer_with_size 5 example_pool =
     (staging_buffer 2 8,
      example_pool\<lparr>staging_buffers :=
        fmupd 8 [staging_buffer 3 8] (staging_buffers example_pool)\<rparr>)
   \<and> get_staging_buffer_with_size 17 example_pool =
     (staging_buffer 4 17, example_pool\<lparr>num_allocations := 5\<rparr>)
   \<and> num_allocations (snd (get_staging_buffer_with_size 17
        (release_staging_buffer (staging_buffer 4 17) example_pool))) = 4
   \<and> fst (get_staging_buffer_with_size 17
        (release_staging_buffer (staging_buffer 4 17) example_pool)) = staging_buffer 4 17"
proof -
  note thm5 = staging_buffer_large_enough_and_reused [OF example_pool_ok, of 5]
  note thm17 = staging_buffer_large_enough_and_reused [OF example_pool_ok, of 17]
  have fit5: "fitting_buckets 5 (staging_buffers example_pool) = {|8, 16|}"
    by (rule example_pool_fitting)
  have fit17: "fitting_buckets 17 (staging_buffers example_pool) = {||}"
    by (auto simp: fitting_buckets_def example_pool_def split: if_splits)
  from thm5 fit5 obtain k bs where k: "k = 8 \<or> k = 16" and least: "k \<le> 8"
    and look: "fmlookup (staging_buffers example_pool) k
        = Some (fst (get_staging_buffer_with_size 5 example_pool) # bs)"
    and rest: "snd (get_staging_buffer_with_size 5 example_pool)
        = example_pool\<lparr>staging_buffers := fmupd k bs (staging_buffers example_pool)\<rparr>"
    by auto
  from k least have k8: "k = 8" by auto
  have "fmlookup (staging_buffers example_pool) 8 = Some [staging_buffer 2 8, staging_buffer 3 8]"
    by (simp add: example_pool_def)
  with look have "fst (get_staging_buffer_with_size 5 example_pool) = staging_buffer 2 8"
    and "bs = [staging_buffer 3 8]"
    by (simp_all add: k8)
  with rest have first: "get_staging_buffer_with_size 5 example_pool =
     (staging_buffer 2 8,
      example_pool\<lparr>staging_buffers :=
        fmupd 8 [staging_buffer 3 8] (staging_buffers example_pool)\<rparr>)"
    by (simp add: k8 prod_eq_iff)
  have count: "num_allocations example_pool = 4"
    by (simp add: example_pool_def)
  from thm17 fit17 have second: "get_staging_buffer_with_size 17 example_pool =
     (staging_buffer 4 17, example_pool\<lparr>num_allocations := 5\<rparr>)"
    by (simp add: staging_buffer_def count)
  from thm17 have third: "num_allocations (snd (get_staging_buffer_with_size 17
        (release_staging_buffer (staging_buffer 4 17) example_pool))) = 4"
    by (simp add: staging_buffer_def count)
  have "fitting_buckets 17
      (staging_buffers (release_staging_buffer (staging_buffer 4 17) example_pool)) = {|17|}"
    by (auto simp: fitting_buckets_def release_staging_buffer_def example_pool_def
        staging_buffer_def split: if_splits)
  with thm17 have fourth: "fst (get_staging_buffer_with_size 17
        (release_staging_buffer (staging_buffer 4 17) example_pool)) = staging_buffer 4 17"
    by (simp add: staging_buffer_def)
  from first second third fourth show ?thesis by simp
qed

end
